theory Spec2Isabelle
  imports Complex_Main
begin

section \<open>The star-registry blockchain of \<^verbatim>\<open>src/blockchain.js\<close>\<close>

text \<open>
  The class \<^verbatim>\<open>Blockchain\<close> keeps an array \<^verbatim>\<open>chain\<close> of blocks and a counter
  \<^verbatim>\<open>height\<close>. Every method returns a promise. The model passes the object's state
  explicitly, and gives each method the outcome of its promise as a value.

  The collaborators that live outside \<^verbatim>\<open>blockchain.js\<close> are parameters of the model:
  \<^item> \<open>H\<close>: \<^verbatim>\<open>SHA256(JSON.stringify(block)).toString()\<close>, a function of the block object;
  \<^item> \<open>verify\<close>: \<^verbatim>\<open>bitcoinMessage.verify(message, address, signature)\<close>, which
    returns a boolean or throws (it throws on a signature or an address that is not
    well formed, for one on a signature that is not 65 bytes long);
  \<^item> \<open>encode\<close>: what the \<^verbatim>\<open>Block\<close> constructor stores as body for a data object;
  \<^item> \<open>decode\<close>: \<^verbatim>\<open>JSON.parse(hex2ascii(body))\<close> up to the read of \<^verbatim>\<open>.address\<close>, which
    gives the decoded object or throws;
  \<^item> \<open>now\<close>: the clock in whole seconds, i.e. the number written by
    \<^verbatim>\<open>new Date().getTime().toString().slice(0,-3)\<close> (the millisecond clock without
    its last three digits; the clock is taken to read at least 1000 ms).
  JavaScript numbers are modelled by unbounded integers and exact rationals, which is what
  they are for the integers below \<open>2^53\<close> that epoch seconds are. Strings are lists of
  8-bit characters.
\<close>

subsection \<open>Blocks\<close>

text \<open>
  The five fields of a block object. \<^verbatim>\<open>null\<close> in a hash field is \<open>None\<close>. The field
  \<^verbatim>\<open>time\<close> holds the decimal string of the clock's seconds; the model keeps its number.
\<close>

record block =
  hash :: "string option"
  height :: nat
  body :: string
  time :: int
  previousBlockHash :: "string option"

text \<open>
  The two data objects that \<^verbatim>\<open>blockchain.js\<close> hands to the \<^verbatim>\<open>Block\<close> constructor:
  \<^verbatim>\<open>{data: 'Genesis Block'}\<close> and \<^verbatim>\<open>{address, signature, message, star}\<close>.
\<close>

datatype 'star payload =
  GenesisData
  | StarData string string string 'star

text \<open>
  Modelled from the spec: the constructor of \<^verbatim>\<open>Block\<close> in \<^verbatim>\<open>block.js\<close>, which is not
  among the sources. A new block has no hash and no previous hash (the specification's
  block 0 keeps an empty previousBlockHash, and \<^verbatim>\<open>_addBlock\<close> assigns none to it), its
  body is the encoded data, and height and time are assigned when the block is appended.
\<close>

definition Block :: "('star payload \<Rightarrow> string) \<Rightarrow> 'star payload \<Rightarrow> block" where
  "Block encode data =
     \<lparr>hash = None, height = 0, body = encode data, time = 0, previousBlockHash = None\<rparr>"

text \<open>
  Modelled from the spec: the method \<^verbatim>\<open>validate\<close> of \<^verbatim>\<open>Block\<close> in \<^verbatim>\<open>block.js\<close>, the
  specification's \<^verbatim>\<open>selfCheck() -> bool\<close>: it recomputes the hash of the block from its
  stored fields, the stored hash excluded, and compares it with the stored hash.
\<close>

definition validate :: "(block \<Rightarrow> string) \<Rightarrow> block \<Rightarrow> bool" where
  "validate H b = (hash b = Some (H (b\<lparr>hash := None\<rparr>)))"

subsection \<open>The state of a \<^verbatim>\<open>Blockchain\<close> object and the outcome of a promise\<close>

record blockchain =
  chain :: "block list"
  height :: int

text \<open>
  The error taxonomy. \<^verbatim>\<open>submitStar\<close> calls \<^verbatim>\<open>reject(null)\<close> on both of its failure
  paths and logs a different message on each; the model names the path:
  \<open>ExpiredChallenge\<close> is the path that logs ``time lapsed more than 5 minutes'',
  \<open>InvalidSignature\<close> the path that logs ``message verification failed''. No path of the
  source rejects for the shape of a message or for a body that does not decode.
\<close>

datatype error = MalformedChallenge | ExpiredChallenge | InvalidSignature | DecodeFailure

text \<open>
  An exception raised inside \<^verbatim>\<open>new Promise(async (resolve, reject) => ...)\<close> rejects
  the promise of the async executor, which nobody holds (the runtime reports an unhandled
  rejection); the promise that the method returned is then never settled. \<open>Unsettled\<close>
  is that outcome, with the exception raised. \<open>Error\<close> is the plain \<^verbatim>\<open>Error\<close> that a
  library throws, \<open>Thrown\<close> is what \<^verbatim>\<open>await\<close> raises on a rejected promise.
\<close>

datatype exn = TypeError | SyntaxError | Error | Thrown error

datatype 'a promise = Resolve 'a | Reject error | Unsettled exn

text \<open>\<^verbatim>\<open>xs[i]\<close>: the element, or \<^verbatim>\<open>undefined\<close> beyond the end of the array.\<close>

definition index :: "'a list \<Rightarrow> nat \<Rightarrow> 'a option" where
  "index xs i = (if i < length xs then Some (xs ! i) else None)"

subsection \<open>\<^verbatim>\<open>_addBlock\<close>, \<^verbatim>\<open>initializeChain\<close>, the constructor, \<^verbatim>\<open>getChainHeight\<close>\<close>

text \<open>
  \<^verbatim>\<open>_addBlock(block)\<close> stamps the time and the height (the length of the chain), links
  the block to the hash of the last block when there is one, hashes the block object as it
  then is, increments \<^verbatim>\<open>this.height\<close>, pushes the block and resolves with it. Nothing in
  it can throw, so the promise always resolves: the model returns the block and the state.
\<close>

definition addBlock :: "(block \<Rightarrow> string) \<Rightarrow> int \<Rightarrow> blockchain \<Rightarrow> block \<Rightarrow> block \<times> blockchain" where
  "addBlock H now s b0 =
     (let b1 = b0\<lparr>time := now\<rparr>;
          b2 = b1\<lparr>block.height := length (chain s)\<rparr>;
          b3 = (if length (chain s) > 0
                then b2\<lparr>previousBlockHash := hash (chain s ! (length (chain s) - 1))\<rparr>
                else b2);
          b4 = b3\<lparr>hash := Some (H b3)\<rparr>
      in (b4, s\<lparr>blockchain.height := blockchain.height s + 1, chain := chain s @ [b4]\<rparr>))"

definition initializeChain ::
  "(block \<Rightarrow> string) \<Rightarrow> ('star payload \<Rightarrow> string) \<Rightarrow> int \<Rightarrow> blockchain \<Rightarrow> blockchain" where
  "initializeChain H encode now s =
     (if blockchain.height s = - 1
      then snd (addBlock H now s (Block encode GenesisData))
      else s)"

text \<open>
  The constructor. \<^verbatim>\<open>initializeChain\<close> and the executor of \<^verbatim>\<open>_addBlock\<close> run up to
  their first \<^verbatim>\<open>await\<close> inside the constructor call, and \<^verbatim>\<open>_addBlock\<close> has none: the
  genesis block is in the chain when \<^verbatim>\<open>new Blockchain()\<close> returns.
\<close>

definition constructor ::
  "(block \<Rightarrow> string) \<Rightarrow> ('star payload \<Rightarrow> string) \<Rightarrow> int \<Rightarrow> blockchain" where
  "constructor H encode now = initializeChain H encode now \<lparr>chain = [], height = - 1\<rparr>"

definition getChainHeight :: "blockchain \<Rightarrow> int promise" where
  "getChainHeight s = Resolve (blockchain.height s)"

subsection \<open>\<^verbatim>\<open>submitStar\<close>\<close>

text \<open>\<^verbatim>\<open>str.split(sep)\<close> for a one-character separator: never an empty array.\<close>

fun split :: "char \<Rightarrow> string \<Rightarrow> string list" where
  "split sep [] = [[]]"
| "split sep (c # cs) =
     (if c = sep then [] # split sep cs
      else (case split sep cs of [] \<Rightarrow> [[c]] | f # fs \<Rightarrow> (c # f) # fs))"

text \<open>
  \<^verbatim>\<open>parseInt(string)\<close> without a radix: leading white space is dropped, then an optional
  sign is read, then an optional \<^verbatim>\<open>0x\<close> that selects radix 16, then the longest run of
  digits of the radix. No digit at all gives \<^verbatim>\<open>NaN\<close>, which is \<open>None\<close>.
\<close>

definition isWhiteSpace :: "char \<Rightarrow> bool" where
  "isWhiteSpace c = ((of_char c :: nat) \<in> {9, 10, 11, 12, 13, 32, 160})"

definition digitVal :: "char \<Rightarrow> nat option" where
  "digitVal c =
     (let n = (of_char c :: nat) in
      if 48 \<le> n \<and> n \<le> 57 then Some (n - 48)
      else if 97 \<le> n \<and> n \<le> 122 then Some (n - 87)
      else if 65 \<le> n \<and> n \<le> 90 then Some (n - 55)
      else None)"

definition isDigit :: "nat \<Rightarrow> char \<Rightarrow> bool" where
  "isDigit radix c = (case digitVal c of None \<Rightarrow> False | Some d \<Rightarrow> d < radix)"

definition digitsValue :: "nat \<Rightarrow> string \<Rightarrow> nat" where
  "digitsValue radix ds = foldl (\<lambda>a c. a * radix + the (digitVal c)) 0 ds"

definition parseInt :: "string \<Rightarrow> int option" where
  "parseInt str =
     (let s1 = dropWhile isWhiteSpace str;
          sign = (if s1 \<noteq> [] \<and> hd s1 = CHR ''-'' then - 1 else (1::int));
          s2 = (if s1 \<noteq> [] \<and> (hd s1 = CHR ''-'' \<or> hd s1 = CHR ''+'') then tl s1 else s1);
          hex = (take 2 s2 = ''0x'' \<or> take 2 s2 = ''0X'');
          radix = (if hex then 16 else 10);
          s3 = (if hex then drop 2 s2 else s2);
          ds = takeWhile (isDigit radix) s3
      in if ds = [] then None else Some (sign * int (digitsValue radix ds)))"

text \<open>
  \<^verbatim>\<open>parseInt(message.split(':')[1])\<close>. A message without a colon has no second field:
  the argument is \<^verbatim>\<open>undefined\<close>, which \<^verbatim>\<open>parseInt\<close> reads as the string ``undefined''.
\<close>

definition sent_time :: "string \<Rightarrow> int option" where
  "sent_time message =
     parseInt (case index (split CHR '':'' message) 1 of
                 None \<Rightarrow> ''undefined'' | Some field \<Rightarrow> field)"

text \<open>
  \<^verbatim>\<open>(curr_time - sent_time)/60\<close>; with \<^verbatim>\<open>NaN\<close> for the sent time it is \<^verbatim>\<open>NaN\<close>, and
  \<^verbatim>\<open>NaN < 5\<close> is false.
\<close>

definition minutes_laps :: "int \<Rightarrow> string \<Rightarrow> rat option" where
  "minutes_laps curr_time message =
     (case sent_time message of
        None \<Rightarrow> None
      | Some t \<Rightarrow> Some (of_int (curr_time - t) / 60))"

definition less_than_5 :: "rat option \<Rightarrow> bool" where
  "less_than_5 m = (case m of None \<Rightarrow> False | Some q \<Rightarrow> q < 5)"

text \<open>
  \<^verbatim>\<open>submitStar(address, message, signature, star)\<close>. The executor has no \<^verbatim>\<open>await\<close>;
  it reads the state only on the path that calls \<^verbatim>\<open>_addBlock\<close>, where the promise
  resolves with the block added. The call of \<^verbatim>\<open>bitcoinMessage.verify\<close> stands in the
  async executor without a \<^verbatim>\<open>try\<close>: when it throws, neither \<^verbatim>\<open>resolve\<close> nor
  \<^verbatim>\<open>reject\<close> is called and the promise is left unsettled.
\<close>

definition submitStar ::
  "(block \<Rightarrow> string) \<Rightarrow> (string \<Rightarrow> string \<Rightarrow> string \<Rightarrow> exn + bool) \<Rightarrow>
   ('star payload \<Rightarrow> string) \<Rightarrow>
   int \<Rightarrow> blockchain \<Rightarrow> string \<Rightarrow> string \<Rightarrow> string \<Rightarrow> 'star \<Rightarrow> block promise \<times> blockchain" where
  "submitStar H verify encode now s address message signature star =
     (if less_than_5 (minutes_laps now message) then
        (case verify message address signature of
           Inl e \<Rightarrow> (Unsettled e, s)
         | Inr ver \<Rightarrow>
             (if ver then
                (let (newBlock, s') =
                       addBlock H now s (Block encode (StarData address signature message star))
                 in (Resolve newBlock, s'))
              else (Reject InvalidSignature, s)))
      else (Reject ExpiredChallenge, s))"

subsection \<open>\<^verbatim>\<open>getStarsByWalletAddress\<close>\<close>

text \<open>
  The loop \<^verbatim>\<open>for (let i = 1; i <= chainlen; i++)\<close>, with \<^verbatim>\<open>chainlen\<close> the value of
  \<^verbatim>\<open>this.height\<close>. Reading \<^verbatim>\<open>.body\<close> of a block beyond the end of the array raises a
  TypeError. A body that does not parse raises the SyntaxError of \<^verbatim>\<open>JSON.parse\<close>, and
  a body that parses to \<^verbatim>\<open>null\<close> raises a TypeError at the read of \<^verbatim>\<open>.address\<close>: the
  exception is what \<open>decode\<close> returns on the left. The
  decoded genesis object has no \<^verbatim>\<open>address\<close>, and \<^verbatim>\<open>undefined == address\<close> is false for
  a string; between two strings \<^verbatim>\<open>==\<close> is equality. A match pushes
  \<^verbatim>\<open>{address: thisadd, star: decode_body.star}\<close>, a pair in the model.
\<close>

function stars_loop ::
  "(string \<Rightarrow> exn + 'star payload) \<Rightarrow> block list \<Rightarrow> string \<Rightarrow> int \<Rightarrow> nat \<Rightarrow>
   (string \<times> 'star) list \<Rightarrow> exn + (string \<times> 'star) list" where
  "stars_loop decode blocks addr chainlen i stars =
     (if int i \<le> chainlen then
        (case index blocks i of
           None \<Rightarrow> Inl TypeError
         | Some blk \<Rightarrow>
             (case decode (body blk) of
                Inl e \<Rightarrow> Inl e
              | Inr GenesisData \<Rightarrow> stars_loop decode blocks addr chainlen (i + 1) stars
              | Inr (StarData thisadd sg msg st) \<Rightarrow>
                  (if thisadd = addr
                   then stars_loop decode blocks addr chainlen (i + 1) (stars @ [(thisadd, st)])
                   else stars_loop decode blocks addr chainlen (i + 1) stars)))
      else Inr stars)"
  by pat_completeness auto
termination
  by (relation "measure (\<lambda>(decode, blocks, addr, chainlen, i, stars). nat (chainlen + 1 - int i))") auto

definition getStarsByWalletAddress ::
  "(string \<Rightarrow> exn + 'star payload) \<Rightarrow> blockchain \<Rightarrow> string \<Rightarrow> (string \<times> 'star) list promise" where
  "getStarsByWalletAddress decode s addr =
     (case getChainHeight s of
        Resolve chainlen \<Rightarrow>
          (case stars_loop decode (chain s) addr chainlen 1 [] of
             Inl e \<Rightarrow> Unsettled e
           | Inr stars \<Rightarrow> Resolve stars)
      | Reject e \<Rightarrow> Unsettled (Thrown e)
      | Unsettled e \<Rightarrow> Unsettled e)"

subsection \<open>\<^verbatim>\<open>validateChain\<close>\<close>

text \<open>
  The loop \<^verbatim>\<open>for (let i = 0; i <= chainlen; i++)\<close>. At \<^verbatim>\<open>i == chainlen\<close> the block is
  only validated and the loop breaks; before, the hash of the block is compared with the
  previous hash stored in the next block as well. \<^verbatim>\<open>!blocki_valid === true\<close> negates
  first and compares then. The indices pushed are the error log.
\<close>

function validate_loop ::
  "(block \<Rightarrow> string) \<Rightarrow> block list \<Rightarrow> int \<Rightarrow> nat \<Rightarrow> nat list \<Rightarrow> exn + nat list" where
  "validate_loop H blocks chainlen i errorLog =
     (if int i \<le> chainlen then
        (case index blocks i of
           None \<Rightarrow> Inl TypeError
         | Some blocki \<Rightarrow>
             (let blocki_valid = validate H blocki in
              if int i = chainlen then
                (if (\<not> blocki_valid) = True then Inr (errorLog @ [i]) else Inr errorLog)
              else
                (case index blocks (i + 1) of
                   None \<Rightarrow> Inl TypeError
                 | Some next_block \<Rightarrow>
                     (let blockHash = hash blocki;
                          prevHash = previousBlockHash next_block
                      in if (\<not> blocki_valid) = True \<or> blockHash \<noteq> prevHash
                         then validate_loop H blocks chainlen (i + 1) (errorLog @ [i])
                         else validate_loop H blocks chainlen (i + 1) errorLog))))
      else Inr errorLog)"
  by pat_completeness auto
termination
  by (relation "measure (\<lambda>(H, blocks, chainlen, i, errorLog). nat (chainlen + 1 - int i))") auto

text \<open>What the promise of \<^verbatim>\<open>validateChain\<close> resolves with: \<^verbatim>\<open>true\<close>, or the error log.\<close>

datatype validation = ValidTrue | Errors "nat list"

definition validateChain :: "(block \<Rightarrow> string) \<Rightarrow> blockchain \<Rightarrow> validation promise" where
  "validateChain H s =
     (case getChainHeight s of
        Resolve chainlen \<Rightarrow>
          (case validate_loop H (chain s) chainlen 0 [] of
             Inl e \<Rightarrow> Unsettled e
           | Inr errorLog \<Rightarrow>
               (if length errorLog = 0 then Resolve ValidTrue else Resolve (Errors errorLog)))
      | Reject e \<Rightarrow> Unsettled (Thrown e)
      | Unsettled e \<Rightarrow> Unsettled e)"

subsection \<open>Sequences of operations\<close>

text \<open>
  The operations that assign to \<^verbatim>\<open>this.chain\<close> or \<^verbatim>\<open>this.height\<close>, each with the clock
  reading at the call. The other methods only read the object.
\<close>

datatype 'star operation =
  AddBlock int block
  | InitializeChain int
  | SubmitStar int string string string 'star

fun step ::
  "(block \<Rightarrow> string) \<Rightarrow> (string \<Rightarrow> string \<Rightarrow> string \<Rightarrow> exn + bool) \<Rightarrow> ('star payload \<Rightarrow> string) \<Rightarrow>
   blockchain \<Rightarrow> 'star operation \<Rightarrow> blockchain" where
  "step H verify encode s (AddBlock now b) = snd (addBlock H now s b)"
| "step H verify encode s (InitializeChain now) = initializeChain H encode now s"
| "step H verify encode s (SubmitStar now addr msg sg st) =
     snd (submitStar H verify encode now s addr msg sg st)"

definition run ::
  "(block \<Rightarrow> string) \<Rightarrow> (string \<Rightarrow> string \<Rightarrow> string \<Rightarrow> exn + bool) \<Rightarrow> ('star payload \<Rightarrow> string) \<Rightarrow>
   int \<Rightarrow> 'star operation list \<Rightarrow> blockchain" where
  "run H verify encode t0 ops = foldl (step H verify encode) (constructor H encode t0) ops"

subsection \<open>The invariant of the object\<close>

text \<open>
  The stored height is the index of the last block, the heights of the blocks count up
  from 0, and the list of previous hashes is the list of hashes shifted by one place, with
  no previous hash in the first block.
\<close>

definition chain_inv :: "blockchain \<Rightarrow> bool" where
  "chain_inv s =
     (blockchain.height s = int (length (chain s)) - 1 \<and>
      map block.height (chain s) = [0..<length (chain s)] \<and>
      map previousBlockHash (chain s) = None # map hash (butlast (chain s)))"

subsection \<open>What the validator and the owner query are to compute\<close>

text \<open>
  These definitions follow the specification, not the loops. Index \<open>i\<close> is in violation
  when the block does not pass its own check, or when it has a successor whose previous
  hash is not the hash of the block; the violations of a chain are these indices in
  ascending order.
\<close>

definition violation :: "(block \<Rightarrow> string) \<Rightarrow> block list \<Rightarrow> nat \<Rightarrow> bool" where
  "violation H blocks i =
     (\<not> validate H (blocks ! i) \<or>
      (i + 1 < length blocks \<and> hash (blocks ! i) \<noteq> previousBlockHash (blocks ! (i + 1))))"

definition violations :: "(block \<Rightarrow> string) \<Rightarrow> block list \<Rightarrow> nat list" where
  "violations H blocks = filter (violation H blocks) [0..<length blocks]"

text \<open>
  The claim that a block holds for an owner: the decoded body is a star submission whose
  address is the one asked for; it is reported as the pair of address and star that
  \<^verbatim>\<open>getStarsByWalletAddress\<close> pushes. The owner's claims are those of the blocks
  from index 1 on, in the order of the chain.
\<close>

definition claim_of :: "(string \<Rightarrow> exn + 'star payload) \<Rightarrow> string \<Rightarrow> block \<Rightarrow> (string \<times> 'star) option" where
  "claim_of decode addr blk =
     (case decode (body blk) of
        Inr (StarData a sg m st) \<Rightarrow> (if a = addr then Some (a, st) else None)
      | _ \<Rightarrow> None)"

definition listClaimsByOwner ::
  "(string \<Rightarrow> exn + 'star payload) \<Rightarrow> block list \<Rightarrow> string \<Rightarrow> (string \<times> 'star) list" where
  "listClaimsByOwner decode blocks addr = List.map_filter (claim_of decode addr) (drop 1 blocks)"

text \<open>
  An operation is fresh when the block it appends comes from the \<^verbatim>\<open>Block\<close>
  constructor, that is without a hash: all operations but a call of \<^verbatim>\<open>_addBlock\<close>
  with a block that already carries one.
\<close>

definition fresh :: "'star operation \<Rightarrow> bool" where
  "fresh op = (case op of AddBlock now b \<Rightarrow> hash b = None | _ \<Rightarrow> True)"

subsection \<open>A concrete instance\<close>

text \<open>
  Small collaborators on which the model can be run: a hash that writes the body and the
  previous hash out; a signature check that throws on a signature that has not the length
  of the address, as \<^verbatim>\<open>bitcoinMessage.verify\<close> throws on a signature that has not 65
  bytes, and expects the address written backwards otherwise; a codec that joins the four
  fields of a star submission with bars, whose decoder throws the SyntaxError on what is
  not such a body, and the TypeError on the text \<^verbatim>\<open>null\<close>.
\<close>

definition demoHash :: "block \<Rightarrow> string" where
  "demoHash b =
     body b @ (case previousBlockHash b of None \<Rightarrow> ''-'' | Some p \<Rightarrow> CHR ''<'' # take 5 p)"

definition demoVerify :: "string \<Rightarrow> string \<Rightarrow> string \<Rightarrow> exn + bool" where
  "demoVerify message address signature =
     (if length signature \<noteq> length address then Inl Error
      else Inr (signature = rev address))"

fun demoEncode :: "string payload \<Rightarrow> string" where
  "demoEncode GenesisData = ''G''"
| "demoEncode (StarData a sg m st) = a @ ''|'' @ sg @ ''|'' @ m @ ''|'' @ st"

definition demoDecode :: "string \<Rightarrow> exn + string payload" where
  "demoDecode b =
     (case split CHR ''|'' b of
        [g] \<Rightarrow> (if g = ''G'' then Inr GenesisData
                else if g = ''null'' then Inl TypeError
                else Inl SyntaxError)
      | [a, sg, m, st] \<Rightarrow> Inr (StarData a sg m st)
      | _ \<Rightarrow> Inl SyntaxError)"

text \<open>
  Five submissions to a chain created at second 1000: one in time and signed, one 400
  seconds late, one with a wrong signature, one with a signature on which the check
  throws, one in time and signed.
\<close>

definition demoOps :: "string operation list" where
  "demoOps =
     [SubmitStar 1010 ''ann'' ''ann:1000:starRegistry'' ''nna'' ''Vega'',
      SubmitStar 1400 ''bob'' ''bob:1000:starRegistry'' ''bob'' ''Deneb'',
      SubmitStar 1020 ''bob'' ''bob:1015:starRegistry'' ''obb'' ''Altair'',
      SubmitStar 1025 ''bob'' ''bob:1015:starRegistry'' ''forged'' ''Altair'',
      SubmitStar 1030 ''bob'' ''bob:1015:starRegistry'' ''bob'' ''Sirius'']"

definition demoChain :: blockchain where
  "demoChain = run demoHash demoVerify demoEncode 1000 demoOps"

text \<open>
  The chain of the five submissions, with the hash of block 1 overwritten and the star
  in the body of block 2 replaced.
\<close>

definition demoTampered :: blockchain where
  "demoTampered =
     \<lparr>chain =
        [\<lparr>hash = Some ''G-'', height = 0, body = ''G'', time = 1000, previousBlockHash = None\<rparr>,
         \<lparr>hash = Some ''forged'', height = 1,
            body = ''ann|nna|ann:1000:starRegistry|Vega'', time = 1010,
            previousBlockHash = Some ''G-''\<rparr>,
         \<lparr>hash = Some ''bob|bob|bob:1015:starRegistry|Sirius<ann|n'', height = 2,
            body = ''bob|bob|bob:1015:starRegistry|Polaris'', time = 1030,
            previousBlockHash = Some ''ann|nna|ann:1000:starRegistry|Vega<G-''\<rparr>],
      height = 2\<rparr>"

text \<open>The same chain with the body of block 1 cut short, so that it no longer decodes.\<close>

definition demoCorrupt :: blockchain where
  "demoCorrupt =
     \<lparr>chain =
        [\<lparr>hash = Some ''G-'', height = 0, body = ''G'', time = 1000, previousBlockHash = None\<rparr>,
         \<lparr>hash = Some ''ann|nna|ann:1000:starRegistry|Vega<G-'', height = 1,
            body = ''ann|nna'', time = 1010,
            previousBlockHash = Some ''G-''\<rparr>,
         \<lparr>hash = Some ''bob|bob|bob:1015:starRegistry|Sirius<ann|n'', height = 2,
            body = ''bob|bob|bob:1015:starRegistry|Sirius'', time = 1030,
            previousBlockHash = Some ''ann|nna|ann:1000:starRegistry|Vega<G-''\<rparr>],
      height = 2\<rparr>"

text \<open>The chain with the text \<^verbatim>\<open>null\<close> as body of block 2.\<close>

definition demoNull :: blockchain where
  "demoNull =
     \<lparr>chain =
        [\<lparr>hash = Some ''G-'', height = 0, body = ''G'', time = 1000, previousBlockHash = None\<rparr>,
         \<lparr>hash = Some ''ann|nna|ann:1000:starRegistry|Vega<G-'', height = 1,
            body = ''ann|nna|ann:1000:starRegistry|Vega'', time = 1010,
            previousBlockHash = Some ''G-''\<rparr>,
         \<lparr>hash = Some ''bob|bob|bob:1015:starRegistry|Sirius<ann|n'', height = 2,
            body = ''null'', time = 1030,
            previousBlockHash = Some ''ann|nna|ann:1000:starRegistry|Vega<G-''\<rparr>],
      height = 2\<rparr>"

section \<open>Properties\<close>

subsection \<open>What \<^verbatim>\<open>_addBlock\<close> does to the state\<close>

lemma addBlock_chain: "chain (snd (addBlock H now s b)) = chain s @ [fst (addBlock H now s b)]"
  by (simp add: addBlock_def Let_def)

lemma addBlock_height: "blockchain.height (snd (addBlock H now s b)) = blockchain.height s + 1"
  by (simp add: addBlock_def Let_def)

lemma addBlock_block_height: "block.height (fst (addBlock H now s b)) = length (chain s)"
  by (simp add: addBlock_def Let_def)

lemma addBlock_previous:
  "previousBlockHash (fst (addBlock H now s b)) =
     (if chain s = [] then previousBlockHash b else hash (last (chain s)))"
  by (simp add: addBlock_def Let_def last_conv_nth)

subsection \<open>The invariant holds after the constructor and after every operation\<close>

lemma chain_inv_nonempty: "chain_inv s \<Longrightarrow> chain s \<noteq> []"
  by (auto simp: chain_inv_def)

lemma chain_inv_addBlock:
  assumes "chain_inv s"
  shows "chain_inv (snd (addBlock H now s b))"
proof -
  have ne: "chain s \<noteq> []" using assms by (rule chain_inv_nonempty)
  have "map hash (chain s) = map hash (butlast (chain s)) @ [hash (last (chain s))]"
    using ne by (metis append_butlast_last_id list.simps(9) map_append list.map(1))
  then show ?thesis
    using assms ne
    by (simp add: chain_inv_def addBlock_chain addBlock_height addBlock_block_height
        addBlock_previous)
qed

lemma chain_inv_constructor: "chain_inv (constructor H encode now)"
  by (simp add: chain_inv_def constructor_def initializeChain_def addBlock_def Let_def Block_def)

lemma chain_inv_initializeChain: "chain_inv s \<Longrightarrow> initializeChain H encode now s = s"
  by (auto simp: chain_inv_def initializeChain_def)

lemma submitStar_state:
  "snd (submitStar H verify encode now s a m sg st) = s \<or>
   snd (submitStar H verify encode now s a m sg st) =
     snd (addBlock H now s (Block encode (StarData a sg m st)))"
  by (simp add: submitStar_def split: prod.splits sum.splits)

lemma chain_inv_step: "chain_inv s \<Longrightarrow> chain_inv (step H verify encode s op)"
proof (cases op)
  case (AddBlock now b)
  assume "chain_inv s"
  then show ?thesis using AddBlock by (simp add: chain_inv_addBlock)
next
  case (InitializeChain now)
  assume "chain_inv s"
  then show ?thesis using InitializeChain by (simp add: chain_inv_initializeChain)
next
  case (SubmitStar now a m sg st)
  assume "chain_inv s"
  then show ?thesis
    using SubmitStar submitStar_state [of H verify encode now s a m sg st]
    by (auto simp: chain_inv_addBlock)
qed

lemma chain_inv_foldl: "chain_inv s \<Longrightarrow> chain_inv (foldl (step H verify encode) s ops)"
  by (induction ops arbitrary: s) (simp_all add: chain_inv_step)

lemma chain_inv_run: "chain_inv (run H verify encode t0 ops)"
  by (simp add: run_def chain_inv_foldl chain_inv_constructor)

lemma chain_inv_links:
  assumes "chain_inv s"
  shows "previousBlockHash (chain s ! 0) = None"
    and "1 \<le> i \<Longrightarrow> i < length (chain s) \<Longrightarrow>
         previousBlockHash (chain s ! i) = hash (chain s ! (i - 1))"
proof -
  have eq: "map previousBlockHash (chain s) = None # map hash (butlast (chain s))"
    using assms by (simp add: chain_inv_def)
  have ne: "chain s \<noteq> []" using assms by (rule chain_inv_nonempty)
  have "previousBlockHash (chain s ! 0) = map previousBlockHash (chain s) ! 0"
    using ne by simp
  then show "previousBlockHash (chain s ! 0) = None"
    by (simp add: eq)
  assume i: "1 \<le> i" "i < length (chain s)"
  then have "previousBlockHash (chain s ! i) = map previousBlockHash (chain s) ! i"
    by simp
  also have "\<dots> = map hash (butlast (chain s)) ! (i - 1)"
    using i by (simp add: eq nth_Cons')
  also have "\<dots> = hash (chain s ! (i - 1))"
    using i by (simp add: nth_butlast)
  finally show "previousBlockHash (chain s ! i) = hash (chain s ! (i - 1))" .
qed

lemma chain_inv_heights:
  assumes "chain_inv s" and "i < length (chain s)"
  shows "block.height (chain s ! i) = i"
proof -
  have "block.height (chain s ! i) = map block.height (chain s) ! i"
    using assms(2) by simp
  also have "\<dots> = [0..<length (chain s)] ! i"
    using assms(1) by (simp add: chain_inv_def)
  finally show ?thesis using assms(2) by simp
qed

subsection \<open>The chain of the concrete instance\<close>

lemma demoChain_value:
  "demoChain =
     \<lparr>chain =
        [\<lparr>hash = Some ''G-'', height = 0, body = ''G'', time = 1000, previousBlockHash = None\<rparr>,
         \<lparr>hash = Some ''ann|nna|ann:1000:starRegistry|Vega<G-'', height = 1,
            body = ''ann|nna|ann:1000:starRegistry|Vega'', time = 1010,
            previousBlockHash = Some ''G-''\<rparr>,
         \<lparr>hash = Some ''bob|bob|bob:1015:starRegistry|Sirius<ann|n'', height = 2,
            body = ''bob|bob|bob:1015:starRegistry|Sirius'', time = 1030,
            previousBlockHash = Some ''ann|nna|ann:1000:starRegistry|Vega<G-''\<rparr>],
      height = 2\<rparr>"
  by (simp add: demoChain_def run_def demoOps_def constructor_def initializeChain_def addBlock_def
      Let_def Block_def submitStar_def less_than_5_def minutes_laps_def sent_time_def
      parseInt_def index_def isWhiteSpace_def isDigit_def digitVal_def digitsValue_def
      demoHash_def demoVerify_def)

lemma demoChain_length: "length (chain demoChain) = 3"
  by (simp add: demoChain_value)

subsection \<open>Hash-chain linkage\<close>

text \<open>
  C1. After the constructor and any sequence of operations, every block after the first
  stores as previous hash the hash of the block before it, and the genesis block stores no
  previous hash (the \<^verbatim>\<open>null\<close> the block was created with).
\<close>

theorem hash_chain_linkage:
  "(1 \<le> i \<and> i < length (chain (run H verify encode t0 ops)) \<longrightarrow>
      previousBlockHash (chain (run H verify encode t0 ops) ! i) =
      hash (chain (run H verify encode t0 ops) ! (i - 1))) \<and>
   previousBlockHash (chain (run H verify encode t0 ops) ! 0) = None"
  using chain_inv_links [OF chain_inv_run [of H verify encode t0 ops]] by blast

theorem hash_chain_linkage_witness:
  "1 \<le> (2::nat) \<and> 2 < length (chain demoChain) \<and>
   previousBlockHash (chain demoChain ! 2) = hash (chain demoChain ! (2 - 1)) \<and>
   previousBlockHash (chain demoChain ! 0) = None"
  using hash_chain_linkage [of 2 demoHash demoVerify demoEncode 1000 demoOps] demoChain_length
  by (simp add: demoChain_def)

subsection \<open>Block heights\<close>

text \<open>
  C9. After the constructor and any sequence of operations the chain is not empty and
  the block at index \<open>i\<close> has height \<open>i\<close>; \<^verbatim>\<open>_addBlock\<close> gives the block it appends the
  length of the chain as height; the chain that the constructor leaves is the genesis
  block alone, at height 0.
\<close>

theorem contiguous_heights:
  "(i < length (chain (run H verify encode t0 ops)) \<longrightarrow>
      block.height (chain (run H verify encode t0 ops) ! i) = i) \<and>
   chain (run H verify encode t0 ops) \<noteq> [] \<and>
   block.height (fst (addBlock H now s b)) = length (chain s) \<and>
   length (chain (constructor H encode t0)) = 1 \<and>
   block.height (chain (constructor H encode t0) ! 0) = 0"
proof -
  have "length (chain (constructor H encode t0)) = 1"
    by (simp add: constructor_def initializeChain_def addBlock_chain)
  moreover have "block.height (chain (constructor H encode t0) ! 0) = 0"
    by (simp add: constructor_def initializeChain_def addBlock_chain addBlock_block_height)
  ultimately show ?thesis
    using chain_inv_heights [OF chain_inv_run [of H verify encode t0 ops], of i]
      chain_inv_nonempty [OF chain_inv_run [of H verify encode t0 ops]]
    by (simp add: addBlock_block_height)
qed

theorem contiguous_heights_witness:
  "2 < length (chain demoChain) \<and> block.height (chain demoChain ! 2) = 2 \<and>
   chain demoChain \<noteq> [] \<and>
   block.height (fst (addBlock demoHash 1040 demoChain (Block demoEncode GenesisData))) =
     length (chain demoChain)"
  using contiguous_heights [of 2 demoHash demoVerify demoEncode 1000 demoOps 1040 demoChain
      "Block demoEncode GenesisData"] demoChain_length
  by (simp add: demoChain_def)

subsection \<open>The stored height\<close>

text \<open>
  C10. After the constructor and any sequence of operations, the field \<^verbatim>\<open>height\<close> of
  the object is the length of the chain minus one, and \<^verbatim>\<open>getChainHeight\<close> resolves with
  that number.
\<close>

theorem stored_height:
  "blockchain.height (run H verify encode t0 ops) =
     int (length (chain (run H verify encode t0 ops))) - 1 \<and>
   getChainHeight (run H verify encode t0 ops) =
     Resolve (int (length (chain (run H verify encode t0 ops))) - 1)"
  using chain_inv_run [of H verify encode t0 ops]
  by (simp add: chain_inv_def getChainHeight_def)

theorem stored_height_witness:
  "blockchain.height demoChain = 2 \<and> getChainHeight demoChain = Resolve 2"
  using stored_height [of demoHash demoVerify demoEncode 1000 demoOps] demoChain_length
  by (simp add: demoChain_def)

subsection \<open>\<^verbatim>\<open>submitStar\<close>: the time window, the signature, the shape of the message\<close>

lemma sixtieth_less_5: "((of_int x :: rat) / 60 < 5) = (x < 300)"
  by (simp add: divide_less_eq)

lemma less_than_5_iff:
  "less_than_5 (minutes_laps now message) = (\<exists>t. sent_time message = Some t \<and> now - t < 300)"
proof (cases "sent_time message")
  case None
  then show ?thesis by (simp add: less_than_5_def minutes_laps_def)
next
  case (Some t)
  then show ?thesis
    by (simp add: less_than_5_def minutes_laps_def sixtieth_less_5 del: of_int_diff)
qed

lemma sent_time_no_second_field:
  "length (split CHR '':'' message) < 2 \<Longrightarrow> sent_time message = None"
proof -
  have "parseInt ''undefined'' = None" by code_simp
  moreover assume "length (split CHR '':'' message) < 2"
  ultimately show ?thesis by (simp add: sent_time_def index_def)
qed

lemma submitStar_expired:
  "\<not> less_than_5 (minutes_laps now message) \<Longrightarrow>
   submitStar H verify encode now s address message signature star = (Reject ExpiredChallenge, s)"
  by (simp add: submitStar_def)

lemma submitStar_in_time:
  "less_than_5 (minutes_laps now message) \<Longrightarrow>
   submitStar H verify encode now s address message signature star =
     (case verify message address signature of
        Inl e \<Rightarrow> (Unsettled e, s)
      | Inr ver \<Rightarrow>
          (if ver
           then (Resolve (fst (addBlock H now s
                   (Block encode (StarData address signature message star)))),
                 snd (addBlock H now s (Block encode (StarData address signature message star))))
           else (Reject InvalidSignature, s)))"
  by (simp add: submitStar_def split: prod.splits sum.splits)

text \<open>
  C2. When the timestamp read from the message is 300 seconds or more before the clock
  reading, \<^verbatim>\<open>submitStar\<close> rejects on the time-lapsed path and the state is the one it
  was called in; when it is less than 300 seconds before, the submission is not rejected
  on that path.
\<close>

theorem expired_challenge:
  assumes "sent_time message = Some t"
  shows "(300 \<le> now - t \<longrightarrow>
            submitStar H verify encode now s address message signature star =
              (Reject ExpiredChallenge, s)) \<and>
         (now - t < 300 \<longrightarrow>
            fst (submitStar H verify encode now s address message signature star) \<noteq>
              Reject ExpiredChallenge)"
  using assms
  by (auto simp: submitStar_expired submitStar_in_time less_than_5_iff split: sum.splits)

theorem expired_challenge_witness:
  "sent_time ''bob:1000:starRegistry'' = Some 1000 \<and> (300::int) \<le> 1300 - 1000 \<and>
   submitStar demoHash demoVerify demoEncode 1300 demoChain
     ''bob'' ''bob:1000:starRegistry'' ''bob'' ''Deneb'' =
     (Reject ExpiredChallenge, demoChain) \<and>
   (1299::int) - 1000 < 300 \<and>
   fst (submitStar demoHash demoVerify demoEncode 1299 demoChain
     ''bob'' ''bob:1000:starRegistry'' ''bob'' ''Deneb'') \<noteq>
     Reject ExpiredChallenge"
proof -
  have t: "sent_time ''bob:1000:starRegistry'' = Some 1000" by code_simp
  show ?thesis
    using t
      expired_challenge [OF t, of 1300 demoHash demoVerify demoEncode demoChain "''bob''"
        "''bob''" "''Deneb''"]
      expired_challenge [OF t, of 1299 demoHash demoVerify demoEncode demoChain "''bob''"
        "''bob''" "''Deneb''"]
    by simp
qed

text \<open>
  C3. Take a message whose timestamp is less than 300 seconds old. When
  \<^verbatim>\<open>bitcoinMessage.verify\<close> returns false, \<^verbatim>\<open>submitStar\<close> rejects on the
  verification-failed path, state unchanged. When it throws, as it does on a signature
  that is not well formed, the exception is lost in the async executor: the promise is
  left unsettled instead of rejected, state unchanged. And whenever the promise of
  \<^verbatim>\<open>submitStar\<close> does not resolve, the state is the one it was called in, since only the
  resolving path calls \<^verbatim>\<open>_addBlock\<close>.
\<close>

theorem signature_check:
  "(sent_time message = Some t \<and> now - t < 300 \<and>
    verify message address signature = Inr False \<longrightarrow>
      submitStar H verify encode now s address message signature star =
        (Reject InvalidSignature, s)) \<and>
   (sent_time message = Some t \<and> now - t < 300 \<and>
    verify message address signature = Inl x \<longrightarrow>
      submitStar H verify encode now s address message signature star =
        (Unsettled x, s)) \<and>
   (fst (submitStar H verify encode now s address message signature star) = Reject e \<or>
    fst (submitStar H verify encode now s address message signature star) = Unsettled y \<longrightarrow>
      snd (submitStar H verify encode now s address message signature star) = s)"
  by (cases "less_than_5 (minutes_laps now message)")
    (auto simp: submitStar_expired submitStar_in_time less_than_5_iff split: sum.splits)

theorem signature_check_witness:
  "sent_time ''bob:1015:starRegistry'' = Some 1015 \<and> (1020::int) - 1015 < 300 \<and>
   demoVerify ''bob:1015:starRegistry'' ''bob'' ''obb'' = Inr False \<and>
   submitStar demoHash demoVerify demoEncode 1020 demoChain
     ''bob'' ''bob:1015:starRegistry'' ''obb'' ''Altair'' = (Reject InvalidSignature, demoChain) \<and>
   demoVerify ''bob:1015:starRegistry'' ''bob'' ''forged'' = Inl Error \<and>
   submitStar demoHash demoVerify demoEncode 1020 demoChain
     ''bob'' ''bob:1015:starRegistry'' ''forged'' ''Altair'' = (Unsettled Error, demoChain) \<and>
   snd (submitStar demoHash demoVerify demoEncode 1020 demoChain
     ''bob'' ''bob:1015:starRegistry'' ''forged'' ''Altair'') = demoChain"
proof -
  have t: "sent_time ''bob:1015:starRegistry'' = Some 1015" by code_simp
  have v: "demoVerify ''bob:1015:starRegistry'' ''bob'' ''obb'' = Inr False"
    by (simp add: demoVerify_def)
  have w: "demoVerify ''bob:1015:starRegistry'' ''bob'' ''forged'' = Inl Error"
    by (simp add: demoVerify_def)
  show ?thesis
    using t v w
      signature_check [of "''bob:1015:starRegistry''" 1015 1020 demoVerify "''bob''" "''obb''"
        demoHash demoEncode demoChain "''Altair''" Error InvalidSignature Error]
      signature_check [of "''bob:1015:starRegistry''" 1015 1020 demoVerify "''bob''" "''forged''"
        demoHash demoEncode demoChain "''Altair''" Error InvalidSignature Error]
    by simp
qed

text \<open>
  C4, as stated, fails: the message \<^verbatim>\<open>ann:1000\<close> has two fields, not three, and at
  second 1010 with a verifying signature \<^verbatim>\<open>submitStar\<close> appends a block for it.
\<close>

theorem malformed_challenge_counterexample:
  "length (split CHR '':'' ''ann:1000'') \<noteq> 3 \<and>
   submitStar demoHash demoVerify demoEncode 1010 demoChain ''ann'' ''ann:1000'' ''nna'' ''Vega'' =
     (Resolve (fst (addBlock demoHash 1010 demoChain
         (Block demoEncode (StarData ''ann'' ''nna'' ''ann:1000'' ''Vega'')))),
      snd (addBlock demoHash 1010 demoChain
         (Block demoEncode (StarData ''ann'' ''nna'' ''ann:1000'' ''Vega'')))) \<and>
   fst (submitStar demoHash demoVerify demoEncode 1010 demoChain ''ann'' ''ann:1000'' ''nna'' ''Vega'')
     \<noteq> Reject MalformedChallenge"
proof -
  have t: "sent_time ''ann:1000'' = Some 1000" by code_simp
  have l: "less_than_5 (minutes_laps 1010 ''ann:1000'')"
    by (simp add: less_than_5_iff t)
  have n: "length (split CHR '':'' ''ann:1000'') = 2" by simp
  show ?thesis
    by (simp add: submitStar_in_time [OF l] demoVerify_def n)
qed

text \<open>
  C4, amended. \<^verbatim>\<open>submitStar\<close> never counts the fields of the message and never rejects
  for its shape. It reads the second colon-separated field only: a message with fewer than
  two fields, or whose second field does not begin with an integer, is rejected on the
  time-lapsed path, before the signature is looked at and with the state unchanged; a
  message whose second field is a time less than 300 seconds old, with a signature that
  verifies, is accepted whatever its number of fields.
\<close>

theorem no_shape_check:
  "(length (split CHR '':'' message) < 2 \<or> sent_time message = None \<longrightarrow>
      submitStar H verify encode now s address message signature star =
        (Reject ExpiredChallenge, s)) \<and>
   (sent_time message = Some t \<and> now - t < 300 \<and>
    verify message address signature = Inr True \<longrightarrow>
      fst (submitStar H verify encode now s address message signature star) =
        Resolve (fst (addBlock H now s (Block encode (StarData address signature message star))))) \<and>
   fst (submitStar H verify encode now s address message signature star) \<noteq>
     Reject MalformedChallenge"
  by (cases "less_than_5 (minutes_laps now message)")
    (auto simp: submitStar_expired submitStar_in_time less_than_5_iff
      dest: sent_time_no_second_field split: sum.splits)

theorem no_shape_check_witness:
  "length (split CHR '':'' ''ann 1000 starRegistry'') < 2 \<and>
   submitStar demoHash demoVerify demoEncode 1010 demoChain
     ''ann'' ''ann 1000 starRegistry'' ''nna'' ''Vega'' =
     (Reject ExpiredChallenge, demoChain) \<and>
   sent_time ''x:1000:y:z'' = Some 1000 \<and> (1010::int) - 1000 < 300 \<and>
   demoVerify ''x:1000:y:z'' ''ann'' ''nna'' = Inr True \<and>
   fst (submitStar demoHash demoVerify demoEncode 1010 demoChain
     ''ann'' ''x:1000:y:z'' ''nna'' ''Vega'') =
     Resolve (fst (addBlock demoHash 1010 demoChain
       (Block demoEncode (StarData ''ann'' ''nna'' ''x:1000:y:z'' ''Vega''))))"
proof -
  have n: "length (split CHR '':'' ''ann 1000 starRegistry'') < 2" by simp
  have t: "sent_time ''x:1000:y:z'' = Some 1000" by code_simp
  have v: "demoVerify ''x:1000:y:z'' ''ann'' ''nna'' = Inr True" by (simp add: demoVerify_def)
  show ?thesis
    using n t v
      no_shape_check [of "''ann 1000 starRegistry''" demoHash demoVerify demoEncode 1010 demoChain
        "''ann''" "''nna''" "''Vega''" 0]
      no_shape_check [of "''x:1000:y:z''" demoHash demoVerify demoEncode 1010 demoChain
        "''ann''" "''nna''" "''Vega''" 1000]
    by simp
qed

subsection \<open>\<^verbatim>\<open>validateChain\<close>\<close>

declare validate_loop.simps [simp del]

lemma validate_loop_past_end:
  "chainlen = int (length blocks) - 1 \<Longrightarrow>
   validate_loop H blocks chainlen (length blocks) errorLog = Inr errorLog"
  by (subst validate_loop.simps) simp

lemma validate_loop_last:
  assumes "chainlen = int (length blocks) - 1" and "Suc i = length blocks"
  shows "validate_loop H blocks chainlen i errorLog =
           Inr (errorLog @ filter (violation H blocks) [i])"
  using assms
  by (subst validate_loop.simps) (auto simp: index_def violation_def Let_def)

lemma validate_loop_step:
  assumes "chainlen = int (length blocks) - 1" and "Suc i < length blocks"
  shows "validate_loop H blocks chainlen i errorLog =
           validate_loop H blocks chainlen (Suc i) (errorLog @ filter (violation H blocks) [i])"
  using assms
  by (subst validate_loop.simps) (auto simp: index_def violation_def Let_def)

lemma validate_loop_collects:
  assumes "chainlen = int (length blocks) - 1"
  shows "i \<le> length blocks \<Longrightarrow>
         validate_loop H blocks chainlen i errorLog =
           Inr (errorLog @ filter (violation H blocks) [i..<length blocks])"
proof (induction "length blocks - i" arbitrary: i errorLog)
  case 0
  then have "i = length blocks" by simp
  then show ?case using assms by (simp add: validate_loop_past_end)
next
  case (Suc k)
  then have lt: "i < length blocks" by simp
  show ?case
  proof (cases "Suc i = length blocks")
    case True
    then have "[i..<length blocks] = [i]" by (metis upt_rec lessI upt_eq_Nil_conv le_refl)
    then show ?thesis using validate_loop_last [OF assms True] by simp
  next
    case False
    then have lt2: "Suc i < length blocks" using lt by simp
    have k: "k = length blocks - Suc i" using Suc.hyps(2) by simp
    have "validate_loop H blocks chainlen (Suc i) (errorLog @ filter (violation H blocks) [i]) =
            Inr ((errorLog @ filter (violation H blocks) [i]) @
                 filter (violation H blocks) [Suc i..<length blocks])"
      using Suc.hyps(1) [OF k] lt by simp
    moreover have "[i..<length blocks] = i # [Suc i..<length blocks]"
      using lt by (simp add: upt_rec)
    ultimately show ?thesis
      using validate_loop_step [OF assms lt2] by simp
  qed
qed

lemma validateChain_eq:
  assumes "blockchain.height s = int (length (chain s)) - 1"
  shows "validateChain H s =
           Resolve (if violations H (chain s) = [] then ValidTrue
                    else Errors (violations H (chain s)))"
  using validate_loop_collects [OF assms, of 0 H "[]"]
  by (simp add: validateChain_def getChainHeight_def violations_def)

lemma links_nth:
  assumes "map previousBlockHash (tl blocks) = map hash (butlast blocks)"
    and "i + 1 < length blocks"
  shows "hash (blocks ! i) = previousBlockHash (blocks ! (i + 1))"
proof -
  have "hash (blocks ! i) = map hash (butlast blocks) ! i"
    using assms(2) by (simp add: nth_butlast)
  also have "\<dots> = map previousBlockHash (tl blocks) ! i"
    by (simp add: assms(1))
  also have "\<dots> = previousBlockHash (blocks ! (i + 1))"
    using assms(2) by (simp add: nth_tl)
  finally show ?thesis .
qed

lemma untampered_no_violation:
  assumes "list_all (validate H) blocks"
    and "map previousBlockHash (tl blocks) = map hash (butlast blocks)"
  shows "violations H blocks = []"
proof -
  have "\<not> violation H blocks i" if "i < length blocks" for i
    using that assms(1) links_nth [OF assms(2), of i]
    by (auto simp: violation_def list_all_length)
  then show ?thesis
    by (simp add: violations_def filter_empty_conv)
qed

lemma demoChain_untampered:
  "blockchain.height demoChain = int (length (chain demoChain)) - 1"
  "list_all (validate demoHash) (chain demoChain)"
  "map previousBlockHash (tl (chain demoChain)) = map hash (butlast (chain demoChain))"
  by (simp_all add: demoChain_value validate_def demoHash_def)

text \<open>
  C5, as stated, fails: on the untampered chain of the concrete instance the promise of
  \<^verbatim>\<open>validateChain\<close> resolves with \<^verbatim>\<open>true\<close>, not with an empty list.
\<close>

theorem validateChain_true_counterexample:
  "list_all (validate demoHash) (chain demoChain) \<and>
   map previousBlockHash (tl (chain demoChain)) = map hash (butlast (chain demoChain)) \<and>
   validateChain demoHash demoChain = Resolve ValidTrue \<and>
   validateChain demoHash demoChain \<noteq> Resolve (Errors [])"
  using validateChain_eq [OF demoChain_untampered(1), of demoHash]
    untampered_no_violation [OF demoChain_untampered(2) demoChain_untampered(3)]
    demoChain_untampered
  by simp

text \<open>
  C5, amended. On a chain whose stored height is the index of its last block, whose
  blocks all pass their own check and whose previous hashes are the hashes of the
  preceding blocks, the loop of \<^verbatim>\<open>validateChain\<close> ends with an empty error log, and the
  promise resolves with \<^verbatim>\<open>true\<close>.
\<close>

theorem untampered_chain_validates:
  assumes "blockchain.height s = int (length (chain s)) - 1"
    and "list_all (validate H) (chain s)"
    and "map previousBlockHash (tl (chain s)) = map hash (butlast (chain s))"
  shows "validate_loop H (chain s) (blockchain.height s) 0 [] = Inr [] \<and>
         validateChain H s = Resolve ValidTrue"
  using validate_loop_collects [OF assms(1), of 0 H "[]"] validateChain_eq [OF assms(1), of H]
    untampered_no_violation [OF assms(2) assms(3)]
  by (simp add: violations_def)

theorem untampered_chain_validates_witness:
  "blockchain.height demoChain = int (length (chain demoChain)) - 1 \<and>
   list_all (validate demoHash) (chain demoChain) \<and>
   map previousBlockHash (tl (chain demoChain)) = map hash (butlast (chain demoChain)) \<and>
   validate_loop demoHash (chain demoChain) (blockchain.height demoChain) 0 [] = Inr [] \<and>
   validateChain demoHash demoChain = Resolve ValidTrue"
  using demoChain_untampered untampered_chain_validates [OF demoChain_untampered]
  by simp

text \<open>
  C6. On a chain whose stored height is the index of its last block, the error log of
  \<^verbatim>\<open>validateChain\<close> is the list of all violations of the chain: the loop runs to the
  last block whatever it finds on the way. Every index whose block fails its own check is
  in it, the last index included, and so is every index whose hash differs from the
  previous hash of the next block. The promise resolves with that log when it is not
  empty.
\<close>

theorem validateChain_collects_all:
  assumes "blockchain.height s = int (length (chain s)) - 1"
  shows "validate_loop H (chain s) (blockchain.height s) 0 [] = Inr (violations H (chain s)) \<and>
         validateChain H s =
           Resolve (if violations H (chain s) = [] then ValidTrue
                    else Errors (violations H (chain s))) \<and>
         (i < length (chain s) \<and> \<not> validate H (chain s ! i) \<longrightarrow>
            i \<in> set (violations H (chain s))) \<and>
         (j + 1 < length (chain s) \<and>
          hash (chain s ! j) \<noteq> previousBlockHash (chain s ! (j + 1)) \<longrightarrow>
            j \<in> set (violations H (chain s)))"
  using validate_loop_collects [OF assms, of 0 H "[]"] validateChain_eq [OF assms, of H]
  by (auto simp: violations_def violation_def)

theorem validateChain_collects_all_witness:
  "blockchain.height demoTampered = int (length (chain demoTampered)) - 1 \<and>
   validateChain demoHash demoTampered = Resolve (Errors [1, 2]) \<and>
   2 < length (chain demoTampered) \<and> \<not> validate demoHash (chain demoTampered ! 2) \<and>
   2 \<in> set (violations demoHash (chain demoTampered)) \<and>
   1 + 1 < length (chain demoTampered) \<and>
   hash (chain demoTampered ! 1) \<noteq> previousBlockHash (chain demoTampered ! (1 + 1)) \<and>
   1 \<in> set (violations demoHash (chain demoTampered))"
proof -
  have h: "blockchain.height demoTampered = int (length (chain demoTampered)) - 1"
    by (simp add: demoTampered_def)
  have n: "length (chain demoTampered) = 3"
    by (simp add: demoTampered_def)
  have b: "\<not> validate demoHash (chain demoTampered ! 2)"
    by (simp add: demoTampered_def validate_def demoHash_def)
  have l: "hash (chain demoTampered ! 1) \<noteq> previousBlockHash (chain demoTampered ! (1 + 1))"
    by (simp add: demoTampered_def)
  have v: "violations demoHash (chain demoTampered) = [1, 2]"
    by (simp add: violations_def violation_def demoTampered_def validate_def demoHash_def
        upt_rec)
  show ?thesis
    using h n b l validateChain_collects_all [OF h, of demoHash 2 1]
    by (simp add: v)
qed

subsection \<open>A chain grown by fresh operations validates\<close>

lemma addBlock_validate:
  "hash b = None \<Longrightarrow> validate H (fst (addBlock H now s b))"
  by (cases b) (simp add: addBlock_def Let_def validate_def)

lemma validate_step:
  assumes "list_all (validate H) (chain s)" and "fresh op"
  shows "list_all (validate H) (chain (step H verify encode s op))"
proof (cases op)
  case (AddBlock now b)
  then show ?thesis
    using assms by (simp add: fresh_def addBlock_chain addBlock_validate)
next
  case (InitializeChain now)
  then show ?thesis
    using assms
    by (simp add: initializeChain_def addBlock_chain addBlock_validate Block_def)
next
  case (SubmitStar now a m sg st)
  then show ?thesis
    using assms submitStar_state [of H verify encode now s a m sg st]
    by (auto simp: addBlock_chain addBlock_validate Block_def)
qed

lemma validate_foldl:
  "list_all (validate H) (chain s) \<Longrightarrow> list_all fresh ops \<Longrightarrow>
   list_all (validate H) (chain (foldl (step H verify encode) s ops))"
  by (induction ops arbitrary: s) (simp_all add: validate_step)

lemma validate_run:
  "list_all fresh ops \<Longrightarrow> list_all (validate H) (chain (run H verify encode t0 ops))"
  by (simp add: run_def validate_foldl constructor_def initializeChain_def addBlock_chain
      addBlock_validate Block_def)

lemma chain_inv_tl_links:
  "chain_inv s \<Longrightarrow> map previousBlockHash (tl (chain s)) = map hash (butlast (chain s))"
  by (simp add: chain_inv_def map_tl)

lemma validateChain_run:
  assumes "list_all fresh ops"
  shows "validateChain H (run H verify encode t0 ops) = Resolve ValidTrue"
proof -
  have inv: "chain_inv (run H verify encode t0 ops)" by (rule chain_inv_run)
  then have h: "blockchain.height (run H verify encode t0 ops) =
                  int (length (chain (run H verify encode t0 ops))) - 1"
    by (simp add: chain_inv_def)
  show ?thesis
    using validateChain_eq [OF h, of H]
      untampered_no_violation [OF validate_run [OF assms] chain_inv_tl_links [OF inv]]
    by simp
qed

subsection \<open>\<^verbatim>\<open>getStarsByWalletAddress\<close>\<close>

declare stars_loop.simps [simp del]

lemma stars_loop_past_end:
  "chainlen = int (length blocks) - 1 \<Longrightarrow> length blocks \<le> i \<Longrightarrow>
   stars_loop decode blocks addr chainlen i stars = Inr stars"
  by (subst stars_loop.simps) simp

lemma stars_loop_corrupt:
  "chainlen = int (length blocks) - 1 \<Longrightarrow> i < length blocks \<Longrightarrow>
   decode (body (blocks ! i)) = Inl e \<Longrightarrow>
   stars_loop decode blocks addr chainlen i stars = Inl e"
  by (subst stars_loop.simps) (simp add: index_def)

lemma stars_loop_step:
  assumes "chainlen = int (length blocks) - 1" and "i < length blocks"
    and "\<not> isl (decode (body (blocks ! i)))"
  shows "stars_loop decode blocks addr chainlen i stars =
           stars_loop decode blocks addr chainlen (Suc i)
             (stars @ List.map_filter (claim_of decode addr) [blocks ! i])"
  using assms
  by (subst stars_loop.simps)
    (auto simp: index_def claim_of_def split: payload.splits sum.splits)

lemma stars_loop_collects:
  assumes "chainlen = int (length blocks) - 1"
  shows "list_all (\<lambda>b. \<not> isl (decode (body b))) (drop i blocks) \<Longrightarrow>
         stars_loop decode blocks addr chainlen i stars =
           Inr (stars @ List.map_filter (claim_of decode addr) (drop i blocks))"
proof (induction "length blocks - i" arbitrary: i stars)
  case 0
  then show ?case using assms by (simp add: stars_loop_past_end)
next
  case (Suc k)
  then have lt: "i < length blocks" by simp
  have d: "drop i blocks = blocks ! i # drop (Suc i) blocks"
    using lt by (simp add: Cons_nth_drop_Suc)
  have ok: "\<not> isl (decode (body (blocks ! i)))"
    and rest: "list_all (\<lambda>b. \<not> isl (decode (body b))) (drop (Suc i) blocks)"
    using Suc.prems d by simp_all
  have k: "k = length blocks - Suc i" using Suc.hyps(2) by simp
  show ?case
    using stars_loop_step [where decode = decode, OF assms lt ok, of addr stars]
      Suc.hyps(1) [OF k rest]
    by (cases "claim_of decode addr (blocks ! i)") (simp_all add: d)
qed

text \<open>The loop stops at the first body that does not decode, with its exception.\<close>

lemma stars_loop_throws:
  assumes "chainlen = int (length blocks) - 1"
    and "j < length blocks" and "decode (body (blocks ! j)) = Inl e"
  shows "i \<le> j \<Longrightarrow> \<forall>k. i \<le> k \<and> k < j \<longrightarrow> \<not> isl (decode (body (blocks ! k))) \<Longrightarrow>
         stars_loop decode blocks addr chainlen i stars = Inl e"
proof (induction "j - i" arbitrary: i stars)
  case 0
  then have "i = j" by simp
  then show ?case
    using stars_loop_corrupt [where decode = decode, OF assms(1) assms(2) assms(3)] by simp
next
  case (Suc n)
  then have lt: "i < j" by simp
  then have lt': "i < length blocks" using assms(2) by simp
  have ok: "\<not> isl (decode (body (blocks ! i)))"
    using Suc.prems(2) lt by simp
  have n: "n = j - Suc i" using Suc.hyps(2) by simp
  have le: "Suc i \<le> j" using lt by simp
  have rest: "\<forall>k. Suc i \<le> k \<and> k < j \<longrightarrow> \<not> isl (decode (body (blocks ! k)))"
    using Suc.prems(2) by simp
  show ?case
    using stars_loop_step [where decode = decode, OF assms(1) lt' ok, of addr stars]
      Suc.hyps(1) [OF n le rest]
    by simp
qed

lemma demoDecode_bodies:
  "demoDecode ''ann|nna|ann:1000:starRegistry|Vega'' =
     Inr (StarData ''ann'' ''nna'' ''ann:1000:starRegistry'' ''Vega'')"
  "demoDecode ''bob|bob|bob:1015:starRegistry|Sirius'' =
     Inr (StarData ''bob'' ''bob'' ''bob:1015:starRegistry'' ''Sirius'')"
  "demoDecode ''ann|nna'' = Inl SyntaxError"
  "demoDecode ''null'' = Inl TypeError"
  by (simp_all add: demoDecode_def)

text \<open>
  C7. On a chain whose stored height is the index of its last block and whose bodies
  from index 1 on all decode, \<^verbatim>\<open>getStarsByWalletAddress\<close> resolves with the claims of
  the queried address: one pair of address and star for each block after the genesis block
  whose decoded address is the queried one, in the order of the chain.
\<close>

theorem owner_query_exact:
  assumes "blockchain.height s = int (length (chain s)) - 1"
    and "list_all (\<lambda>b. \<not> isl (decode (body b))) (drop 1 (chain s))"
  shows "getStarsByWalletAddress decode s addr =
           Resolve (listClaimsByOwner decode (chain s) addr)"
  using stars_loop_collects [OF assms(1), of decode 1 addr "[]"] assms(2)
  by (simp add: getStarsByWalletAddress_def getChainHeight_def listClaimsByOwner_def)

theorem owner_query_exact_witness:
  "blockchain.height demoChain = int (length (chain demoChain)) - 1 \<and>
   list_all (\<lambda>b. \<not> isl (demoDecode (body b))) (drop 1 (chain demoChain)) \<and>
   getStarsByWalletAddress demoDecode demoChain ''bob'' = Resolve [(''bob'', ''Sirius'')]"
proof -
  have h: "blockchain.height demoChain = int (length (chain demoChain)) - 1"
    by (simp add: demoChain_value)
  have d: "list_all (\<lambda>b. \<not> isl (demoDecode (body b))) (drop 1 (chain demoChain))"
    by (simp add: demoChain_value demoDecode_bodies)
  have c: "listClaimsByOwner demoDecode (chain demoChain) ''bob'' = [(''bob'', ''Sirius'')]"
    by (simp add: listClaimsByOwner_def claim_of_def demoChain_value demoDecode_bodies)
  show ?thesis
    using h d owner_query_exact [OF h d, of "''bob''"] by (simp add: c)
qed

text \<open>
  C8. The owner query does not skip a body that does not decode and does not resolve with
  a partial result, but it does not reject either. On a chain whose stored height is the
  index of its last block, let block \<open>i\<close>, after the genesis block, be the first whose body
  does not decode. The exception of the decoder is raised inside the async executor, which
  loses it: the promise of \<^verbatim>\<open>getStarsByWalletAddress\<close> is never settled, where the claim
  asks for an error that reaches the caller.
\<close>

theorem corrupt_body_never_settles:
  assumes "blockchain.height s = int (length (chain s)) - 1"
    and "1 \<le> i" and "i < length (chain s)" and "decode (body (chain s ! i)) = Inl x"
    and "\<forall>k. 1 \<le> k \<and> k < i \<longrightarrow> \<not> isl (decode (body (chain s ! k)))"
  shows "getStarsByWalletAddress decode s addr = Unsettled x \<and>
         getStarsByWalletAddress decode s addr \<noteq> Reject e \<and>
         getStarsByWalletAddress decode s addr \<noteq> Resolve stars"
  using stars_loop_throws [where decode = decode, OF assms(1) assms(3) assms(4) assms(2) assms(5),
      of addr "[]"]
  by (simp add: getStarsByWalletAddress_def getChainHeight_def)

theorem corrupt_body_never_settles_witness:
  "blockchain.height demoCorrupt = int (length (chain demoCorrupt)) - 1 \<and>
   (1::nat) \<le> 1 \<and> 1 < length (chain demoCorrupt) \<and>
   demoDecode (body (chain demoCorrupt ! 1)) = Inl SyntaxError \<and>
   getStarsByWalletAddress demoDecode demoCorrupt ''bob'' = Unsettled SyntaxError \<and>
   getStarsByWalletAddress demoDecode demoCorrupt ''bob'' \<noteq> Reject DecodeFailure \<and>
   blockchain.height demoNull = int (length (chain demoNull)) - 1 \<and>
   (1::nat) \<le> 2 \<and> 2 < length (chain demoNull) \<and>
   demoDecode (body (chain demoNull ! 2)) = Inl TypeError \<and>
   \<not> isl (demoDecode (body (chain demoNull ! 1))) \<and>
   getStarsByWalletAddress demoDecode demoNull ''ann'' = Unsettled TypeError \<and>
   getStarsByWalletAddress demoDecode demoNull ''ann'' \<noteq> Resolve [(''ann'', ''Vega'')]"
proof -
  have h: "blockchain.height demoCorrupt = int (length (chain demoCorrupt)) - 1"
    by (simp add: demoCorrupt_def)
  have n: "(1::nat) \<le> 1" "1 < length (chain demoCorrupt)"
    by (simp_all add: demoCorrupt_def)
  have d: "demoDecode (body (chain demoCorrupt ! 1)) = Inl SyntaxError"
    by (simp add: demoCorrupt_def demoDecode_bodies)
  have f: "\<forall>k. 1 \<le> k \<and> k < (1::nat) \<longrightarrow> \<not> isl (demoDecode (body (chain demoCorrupt ! k)))"
    by simp
  have h': "blockchain.height demoNull = int (length (chain demoNull)) - 1"
    by (simp add: demoNull_def)
  have n': "(1::nat) \<le> 2" "2 < length (chain demoNull)"
    by (simp_all add: demoNull_def)
  have d': "demoDecode (body (chain demoNull ! 2)) = Inl TypeError"
    by (simp add: demoNull_def demoDecode_bodies)
  have one: "\<not> isl (demoDecode (body (chain demoNull ! 1)))"
    by (simp add: demoNull_def demoDecode_bodies)
  have f': "\<forall>k. 1 \<le> k \<and> k < (2::nat) \<longrightarrow> \<not> isl (demoDecode (body (chain demoNull ! k)))"
  proof (intro allI impI)
    fix k :: nat
    assume "1 \<le> k \<and> k < 2"
    then have "k = 1" by arith
    then show "\<not> isl (demoDecode (body (chain demoNull ! k)))" using one by simp
  qed
  show ?thesis
    using h n d h' n' d' one
      corrupt_body_never_settles [where decode = demoDecode, OF h n d f,
        of "''bob''" DecodeFailure "[]"]
      corrupt_body_never_settles [where decode = demoDecode, OF h' n' d' f',
        of "''ann''" DecodeFailure "[(''ann'', ''Vega'')]"]
    by simp
qed

end
